theory Spec2Isabelle
  imports Complex_Main
begin

section \<open>Python values, text and exceptions\<close>

text \<open>
  The analysis pipeline of \<^verbatim>\<open>backend/ai_analyzer.py\<close> works on untyped Python
  values: the result of \<^verbatim>\<open>json.loads\<close>, and the literal dictionaries of
  \<^verbatim>\<open>_mock_analysis\<close>. A Python \<^verbatim>\<open>str\<close> is a sequence of Unicode code points,
  so text is a list of code points; \<open>S\<close> embeds an ASCII literal. A \<^verbatim>\<open>dict\<close>
  is an association list in insertion order, read with \<open>map_of\<close>. A float literal such
  as \<^verbatim>\<open>0.85\<close> is the rational it denotes (no arithmetic is done on floats here).
\<close>

type_synonym ustr = "nat list"

definition S :: "string \<Rightarrow> ustr" where
  "S s = map of_char s"

datatype pyval =
    PNone
  | PBool bool
  | PInt int
  | PFloat rat
  | PStr ustr
  | PList "pyval list"
  | PDict "(ustr \<times> pyval) list"

text \<open>
  Exceptions raised inside the pipeline. All of them are subclasses of Python's
  \<^verbatim>\<open>Exception\<close>; \<open>OtherError\<close> stands for any other \<^verbatim>\<open>Exception\<close> a library call
  raises (\<^verbatim>\<open>binascii.Error\<close>, a backend error, ...).
\<close>

datatype pyexc = JSONDecodeError | TypeError | IndexError | KeyError | AttributeError | OtherError ustr

definition exc_bind :: "pyexc + 'a \<Rightarrow> ('a \<Rightarrow> pyexc + 'b) \<Rightarrow> pyexc + 'b" where
  "exc_bind r f = (case r of Inl e \<Rightarrow> Inl e | Inr v \<Rightarrow> f v)"

subsection \<open>String methods\<close>

text \<open>\<^verbatim>\<open>str.isspace\<close> for one code point: the Unicode whitespace characters.\<close>

definition isspace :: "nat \<Rightarrow> bool" where
  "isspace c \<longleftrightarrow>
     (9 \<le> c \<and> c \<le> 13) \<or> (28 \<le> c \<and> c \<le> 32) \<or> c = 133 \<or> c = 160 \<or> c = 5760 \<or>
     (8192 \<le> c \<and> c \<le> 8202) \<or> c = 8232 \<or> c = 8233 \<or> c = 8239 \<or> c = 8287 \<or> c = 12288"

definition str_strip :: "ustr \<Rightarrow> ustr" where
  "str_strip s = rev (dropWhile isspace (rev (dropWhile isspace s)))"

definition str_startswith :: "ustr \<Rightarrow> ustr \<Rightarrow> bool" where
  "str_startswith s p \<longleftrightarrow> take (length p) s = p"

definition str_endswith :: "ustr \<Rightarrow> ustr \<Rightarrow> bool" where
  "str_endswith s p \<longleftrightarrow> length p \<le> length s \<and> drop (length s - length p) s = p"

text \<open>\<^verbatim>\<open>s.split(sep)\<close> for a one-character separator.\<close>

fun str_split :: "nat \<Rightarrow> ustr \<Rightarrow> ustr list" where
  "str_split sep [] = [[]]"
| "str_split sep (c # cs) =
     (if c = sep then [] # str_split sep cs
      else (case str_split sep cs of [] \<Rightarrow> [[c]] | p # ps \<Rightarrow> (c # p) # ps))"

text \<open>\<^verbatim>\<open>sub in s\<close> for two strings: \<open>sub\<close> occurs in \<open>s\<close> as a substring.\<close>

fun str_contains :: "ustr \<Rightarrow> ustr \<Rightarrow> bool" where
  "str_contains [] sub \<longleftrightarrow> sub = []"
| "str_contains (c # cs) sub \<longleftrightarrow> str_startswith (c # cs) sub \<or> str_contains cs sub"

subsection \<open>Container operations with a string key\<close>

text \<open>\<^verbatim>\<open>xs[i]\<close> on a list, for a non-negative index.\<close>

definition list_index :: "'a list \<Rightarrow> nat \<Rightarrow> pyexc + 'a" where
  "list_index xs i = (if i < length xs then Inr (xs ! i) else Inl IndexError)"

text \<open>
  \<^verbatim>\<open>k in v\<close> for a string \<open>k\<close>: key membership in a dict, element membership in a
  list, substring test in a string, \<^verbatim>\<open>TypeError\<close> for every value that is not a
  container.
\<close>

fun py_contains :: "pyval \<Rightarrow> ustr \<Rightarrow> pyexc + bool" where
  "py_contains (PDict d) k = Inr (map_of d k \<noteq> None)"
| "py_contains (PList xs) k = Inr (PStr k \<in> set xs)"
| "py_contains (PStr s) k = Inr (str_contains s k)"
| "py_contains PNone k = Inl TypeError"
| "py_contains (PBool b) k = Inl TypeError"
| "py_contains (PInt i) k = Inl TypeError"
| "py_contains (PFloat r) k = Inl TypeError"

fun dict_set :: "(ustr \<times> pyval) list \<Rightarrow> ustr \<Rightarrow> pyval \<Rightarrow> (ustr \<times> pyval) list" where
  "dict_set [] k v = [(k, v)]"
| "dict_set ((k', v') # d) k v = (if k' = k then (k, v) # d else (k', v') # dict_set d k v)"

text \<open>
  \<^verbatim>\<open>v[k] = x\<close> for a string \<open>k\<close>: only a dict accepts it; a list wants an integer
  index and a string is immutable, both raise \<^verbatim>\<open>TypeError\<close>.
\<close>

fun py_setitem :: "pyval \<Rightarrow> ustr \<Rightarrow> pyval \<Rightarrow> pyexc + pyval" where
  "py_setitem (PDict d) k x = Inr (PDict (dict_set d k x))"
| "py_setitem (PList xs) k x = Inl TypeError"
| "py_setitem (PStr s) k x = Inl TypeError"
| "py_setitem PNone k x = Inl TypeError"
| "py_setitem (PBool b) k x = Inl TypeError"
| "py_setitem (PInt i) k x = Inl TypeError"
| "py_setitem (PFloat r) k x = Inl TypeError"

text \<open>\<^verbatim>\<open>v[k]\<close> for a string \<open>k\<close> and \<^verbatim>\<open>len(v)\<close>, as a caller reads a result.\<close>

fun py_getitem :: "pyval \<Rightarrow> ustr \<Rightarrow> pyexc + pyval" where
  "py_getitem (PDict d) k = (case map_of d k of None \<Rightarrow> Inl KeyError | Some x \<Rightarrow> Inr x)"
| "py_getitem (PList xs) k = Inl TypeError"
| "py_getitem (PStr s) k = Inl TypeError"
| "py_getitem PNone k = Inl TypeError"
| "py_getitem (PBool b) k = Inl TypeError"
| "py_getitem (PInt i) k = Inl TypeError"
| "py_getitem (PFloat r) k = Inl TypeError"

fun py_len :: "pyval \<Rightarrow> pyexc + nat" where
  "py_len (PDict d) = Inr (length d)"
| "py_len (PList xs) = Inr (length xs)"
| "py_len (PStr s) = Inr (length s)"
| "py_len PNone = Inl TypeError"
| "py_len (PBool b) = Inl TypeError"
| "py_len (PInt i) = Inl TypeError"
| "py_len (PFloat r) = Inl TypeError"

section \<open>The fallback results: \<^verbatim>\<open>_mock_analysis\<close>\<close>

text \<open>
  The three entries of the literal \<^verbatim>\<open>mock_data\<close>, under the keys \<^verbatim>\<open>circuits\<close>,
  \<^verbatim>\<open>chemistry\<close> and \<^verbatim>\<open>physics\<close>. Code point 937 is the Greek capital omega of the
  source text.
\<close>

definition mock_circuits :: pyval where
  "mock_circuits = PDict [
     (S ''observations'', PStr (S ''I can see a basic electrical circuit with a battery, LED, and wires. The LED appears to be connected directly to the battery without a current-limiting resistor.'')),
     (S ''components'', PList [
        PDict [
          (S ''type'', PStr (S ''LED'')),
          (S ''properties'', PDict [(S ''color'', PStr (S ''red'')), (S ''voltage'', PStr (S ''2V''))]),
          (S ''position'', PStr (S ''center of breadboard'')),
          (S ''connections'', PList [PStr (S ''9V battery positive'')])],
        PDict [
          (S ''type'', PStr (S ''9V Battery'')),
          (S ''properties'', PDict [(S ''voltage'', PStr (S ''9V''))]),
          (S ''position'', PStr (S ''left side'')),
          (S ''connections'', PList [PStr (S ''LED''), PStr (S ''ground wire'')])]]),
     (S ''predicted_outcome'', PStr (S ''The LED will initially light up very brightly but will likely burn out within seconds due to excessive current. A 9V battery connected directly to an LED designed for 2-3V will cause permanent damage.'')),
     (S ''safety_warnings'', PList [
        PDict [
          (S ''severity'', PStr (S ''high'')),
          (S ''message'', PStr (S ''LED connected without current-limiting resistor'')),
          (S ''recommendation'', PStr (S ''Add a 470'' @ [937] @ S '' to 1k'' @ [937] @ S '' resistor in series with the LED to limit current to safe levels (10-20mA).''))],
        PDict [
          (S ''severity'', PStr (S ''medium'')),
          (S ''message'', PStr (S ''Voltage mismatch detected'')),
          (S ''recommendation'', PStr (S ''Use a lower voltage battery (3V) or add voltage regulation.''))]]),
     (S ''guidance'', PList [
        PDict [(S ''step'', PInt 1), (S ''instruction'', PStr (S ''Disconnect the LED from the battery immediately''))],
        PDict [(S ''step'', PInt 2), (S ''instruction'', PStr (S ''Calculate required resistor: R = (V_battery - V_led) / I_desired = (9V - 2V) / 0.02A = 350'' @ [937]))],
        PDict [(S ''step'', PInt 3), (S ''instruction'', PStr (S ''Use a 470'' @ [937] @ S '' resistor (standard value) in series with the LED''))],
        PDict [(S ''step'', PInt 4), (S ''instruction'', PStr (S ''Connect resistor to LED anode (longer leg)''))],
        PDict [(S ''step'', PInt 5), (S ''instruction'', PStr (S ''Connect LED cathode (shorter leg) to battery negative''))],
        PDict [(S ''step'', PInt 6), (S ''instruction'', PStr (S ''Connect resistor other end to battery positive''))],
        PDict [(S ''step'', PInt 7), (S ''instruction'', PStr (S ''Verify LED lights up at safe brightness level''))]]),
     (S ''confidence_score'', PFloat 0.85)]"

definition mock_chemistry :: pyval where
  "mock_chemistry = PDict [
     (S ''observations'', PStr (S ''I can see laboratory glassware including beakers and what appears to be chemicals. Safety equipment is present.'')),
     (S ''components'', PList [
        PDict [
          (S ''type'', PStr (S ''Beaker'')),
          (S ''properties'', PDict [(S ''volume'', PStr (S ''250ml''))]),
          (S ''position'', PStr (S ''center of workspace'')),
          (S ''connections'', PList [])],
        PDict [
          (S ''type'', PStr (S ''Chemical reagents'')),
          (S ''properties'', PDict []),
          (S ''position'', PStr (S ''right side'')),
          (S ''connections'', PList [])]]),
     (S ''predicted_outcome'', PStr (S ''When these chemicals are mixed, a reaction will occur. The exact outcome depends on the specific chemicals being used.'')),
     (S ''safety_warnings'', PList [
        PDict [
          (S ''severity'', PStr (S ''high'')),
          (S ''message'', PStr (S ''Always wear safety goggles and gloves when handling chemicals'')),
          (S ''recommendation'', PStr (S ''Put on appropriate personal protective equipment before proceeding.''))],
        PDict [
          (S ''severity'', PStr (S ''medium'')),
          (S ''message'', PStr (S ''Ensure proper ventilation'')),
          (S ''recommendation'', PStr (S ''Conduct experiment in a well-ventilated area or fume hood.''))]]),
     (S ''guidance'', PList [
        PDict [(S ''step'', PInt 1), (S ''instruction'', PStr (S ''Put on safety goggles and lab gloves''))],
        PDict [(S ''step'', PInt 2), (S ''instruction'', PStr (S ''Verify all chemicals are properly labeled''))],
        PDict [(S ''step'', PInt 3), (S ''instruction'', PStr (S ''Add chemicals slowly while stirring''))],
        PDict [(S ''step'', PInt 4), (S ''instruction'', PStr (S ''Monitor for any unexpected reactions or heat generation''))],
        PDict [(S ''step'', PInt 5), (S ''instruction'', PStr (S ''Dispose of chemicals properly according to lab protocols''))]]),
     (S ''confidence_score'', PFloat 0.75)]"

definition mock_physics :: pyval where
  "mock_physics = PDict [
     (S ''observations'', PStr (S ''I can see a mechanical setup with what appears to be a ramp and objects for motion experiments.'')),
     (S ''components'', PList [
        PDict [
          (S ''type'', PStr (S ''Inclined plane'')),
          (S ''properties'', PDict [(S ''angle'', PStr (S ''30 degrees''))]),
          (S ''position'', PStr (S ''center'')),
          (S ''connections'', PList [])],
        PDict [
          (S ''type'', PStr (S ''Rolling object'')),
          (S ''properties'', PDict [(S ''shape'', PStr (S ''sphere''))]),
          (S ''position'', PStr (S ''top of ramp'')),
          (S ''connections'', PList [])]]),
     (S ''predicted_outcome'', PStr (S ''The object will roll down the inclined plane, accelerating due to gravity. The final velocity will depend on the height and friction coefficient.'')),
     (S ''safety_warnings'', PList [
        PDict [
          (S ''severity'', PStr (S ''low'')),
          (S ''message'', PStr (S ''Ensure the ramp is stable and won't tip over'')),
          (S ''recommendation'', PStr (S ''Secure the base of the ramp to prevent movement during the experiment.''))]]),
     (S ''guidance'', PList [
        PDict [(S ''step'', PInt 1), (S ''instruction'', PStr (S ''Measure and record the ramp angle''))],
        PDict [(S ''step'', PInt 2), (S ''instruction'', PStr (S ''Mark starting and ending positions''))],
        PDict [(S ''step'', PInt 3), (S ''instruction'', PStr (S ''Release the object gently from the starting position''))],
        PDict [(S ''step'', PInt 4), (S ''instruction'', PStr (S ''Time the descent with a stopwatch''))],
        PDict [(S ''step'', PInt 5), (S ''instruction'', PStr (S ''Calculate velocity and acceleration from your measurements''))]]),
     (S ''confidence_score'', PFloat 0.80)]"

definition mock_data :: "(ustr \<times> pyval) list" where
  "mock_data = [
     (S ''circuits'', mock_circuits),
     (S ''chemistry'', mock_chemistry),
     (S ''physics'', mock_physics)]"

text \<open>
  \<^verbatim>\<open>d.get(k, default)\<close>. In \<^verbatim>\<open>mock_data.get(experiment_type, mock_data['circuits'])\<close>
  the default is the entry the literal holds under \<^verbatim>\<open>circuits\<close>.
\<close>

definition dict_get :: "(ustr \<times> 'a) list \<Rightarrow> ustr \<Rightarrow> 'a \<Rightarrow> 'a" where
  "dict_get d k dflt = (case map_of d k of None \<Rightarrow> dflt | Some v \<Rightarrow> v)"

definition mock_analysis :: "ustr \<Rightarrow> pyval" where
  "mock_analysis experiment_type = dict_get mock_data experiment_type mock_circuits"

section \<open>The instruction text: \<^verbatim>\<open>_build_analysis_prompt\<close>\<close>

text \<open>A multi-line literal, given line by line; code point 10 is the line feed.\<close>

fun join_lines :: "string list \<Rightarrow> ustr" where
  "join_lines [] = []"
| "join_lines [l] = S l"
| "join_lines (l # ls) = S l @ 10 # join_lines ls"

definition base_prompt :: ustr where
  \<open>base_prompt = join_lines [
     ''You are Newton's Lens, an expert AI lab assistant for science experiments.'',
     ''Analyze this experimental setup image and provide a detailed analysis in JSON format.'',
     '''',
     ''Your analysis should include:'',
     ''1. Components identified in the setup'',
     ''2. How components are connected or arranged'',
     ''3. Predicted outcome of the experiment'',
     ''4. Safety warnings (if any)'',
     ''5. Step-by-step guidance for proper execution'',
     ''6. Confidence score (0-1)'',
     '''',
     ''Focus on:'']\<close>

definition type_specific_circuits :: ustr where
  \<open>type_specific_circuits = join_lines [
     '''',
     ''- Identify electronic components (resistors, LEDs, batteries, wires, breadboards)'',
     ''- Check for proper connections and polarity'',
     ''- Calculate current and voltage if possible'',
     ''- Warn about short circuits, reverse polarity, or component damage risks'',
     ''- Provide guidance on proper circuit assembly'']\<close>

definition type_specific_chemistry :: ustr where
  \<open>type_specific_chemistry = join_lines [
     '''',
     ''- Identify chemicals, glassware, and equipment'',
     ''- Check for proper safety equipment (gloves, goggles)'',
     ''- Warn about dangerous chemical reactions'',
     ''- Note proper mixing order and safety precautions'',
     ''- Provide guidance on safe chemical handling'']\<close>

definition type_specific_physics :: ustr where
  \<open>type_specific_physics = join_lines [
     '''',
     ''- Identify mechanical components and setup'',
     ''- Analyze forces, motion, or energy involved'',
     ''- Check for stability and safety of the setup'',
     ''- Predict physical outcomes'',
     ''- Provide guidance on measurement and execution'']\<close>

definition type_specific_general :: ustr where
  \<open>type_specific_general = join_lines [
     '''',
     ''- Identify all visible components and materials'',
     ''- Analyze the experimental setup'',
     ''- Provide safety recommendations'',
     ''- Suggest proper execution steps'']\<close>

definition json_format :: ustr where
  \<open>json_format = join_lines [
     '''',
     '''',
     ''Return your analysis as a valid JSON object with this structure:'',
     ''{'',
     ''  "observations": "Detailed description of what you see",'',
     ''  "components": ['',
     ''    {'',
     ''      "type": "component type",'',
     ''      "properties": {"key": "value"},'',
     ''      "position": "description",'',
     ''      "connections": ["connected to"]'',
     ''    }'',
     ''  ],'',
     ''  "predicted_outcome": "What will happen when this experiment is executed",'',
     ''  "safety_warnings": ['',
     ''    {'',
     ''      "severity": "low|medium|high|critical",'',
     ''      "message": "Warning message",'',
     ''      "recommendation": "How to fix it"'',
     ''    }'',
     ''  ],'',
     ''  "guidance": ['',
     ''    {'',
     ''      "step": 1,'',
     ''      "instruction": "Step instruction"'',
     ''    }'',
     ''  ],'',
     ''  "confidence_score": 0.95'',
     ''}'',
     '''',
     ''Ensure the response is ONLY valid JSON, no additional text.'']\<close>

definition type_specific :: "(ustr \<times> ustr) list" where
  "type_specific = [
     (S ''circuits'', type_specific_circuits),
     (S ''chemistry'', type_specific_chemistry),
     (S ''physics'', type_specific_physics),
     (S ''general'', type_specific_general)]"

text \<open>
  \<^verbatim>\<open>base_prompt + type_specific.get(experiment_type, type_specific['general']) + json_format\<close>
\<close>

definition build_analysis_prompt :: "ustr \<Rightarrow> ustr" where
  "build_analysis_prompt experiment_type =
     base_prompt @ dict_get type_specific experiment_type type_specific_general @ json_format"

section \<open>The analyzer\<close>

text \<open>
  The library calls the pipeline makes are parameters: \<^verbatim>\<open>base64.b64decode\<close> and
  \<^verbatim>\<open>json.loads\<close>, each returning a value or raising. The generative model is the
  call \<^verbatim>\<open>self.model.generate_content([prompt, {'mime_type': 'image/jpeg', 'data': image_bytes}]).text\<close>:
  from the prompt and the image bytes to the response text, or an exception.
\<close>

record libs =
  b64decode :: "ustr \<Rightarrow> pyexc + nat list"
  json_loads :: "ustr \<Rightarrow> pyexc + pyval"

type_synonym gen_model = "ustr \<Rightarrow> nat list \<Rightarrow> pyexc + ustr"

record analyzer =
  use_ai :: bool
  model :: "gen_model option"

text \<open>
  \<^verbatim>\<open>__init__\<close>: the argument is the value of the environment variable
  \<^verbatim>\<open>GEMINI_API_KEY\<close> (\<open>None\<close> when it is unset), and the model object the library
  builds when a key is there. Without a key the attribute \<^verbatim>\<open>model\<close> is never set.
\<close>

definition ExperimentAnalyzer_init :: "ustr option \<Rightarrow> gen_model \<Rightarrow> analyzer" where
  "ExperimentAnalyzer_init env_key gm =
     (let api_key = (case env_key of None \<Rightarrow> [] | Some k \<Rightarrow> k)
      in if api_key \<noteq> [] then \<lparr>use_ai = True, model = Some gm\<rparr>
         else \<lparr>use_ai = False, model = None\<rparr>)"

definition generate_content :: "analyzer \<Rightarrow> gen_model" where
  "generate_content self prompt image_bytes =
     (case model self of None \<Rightarrow> Inl AttributeError | Some gm \<Rightarrow> gm prompt image_bytes)"

subsection \<open>\<^verbatim>\<open>_parse_ai_response\<close>\<close>

text \<open>
  The text handed to \<^verbatim>\<open>json.loads\<close>: stripped, without a leading \<^verbatim>\<open>```json\<close>,
  then without a leading \<^verbatim>\<open>```\<close>, then without a trailing \<^verbatim>\<open>```\<close>, stripped again
  (the four statements before the decoding, as one function).
\<close>

definition clean_response :: "ustr \<Rightarrow> ustr" where
  "clean_response response_text =
     (let t1 = str_strip response_text;
          t2 = (if str_startswith t1 (S ''```json'') then drop 7 t1 else t1);
          t3 = (if str_startswith t2 (S ''```'') then drop 3 t2 else t2);
          t4 = (if str_endswith t3 (S ''```'') then take (length t3 - 3) t3 else t3)
      in str_strip t4)"

text \<open>\<^verbatim>\<open>if k not in analysis: analysis[k] = v\<close>\<close>

definition set_default :: "ustr \<Rightarrow> pyval \<Rightarrow> pyval \<Rightarrow> pyexc + pyval" where
  "set_default k v analysis =
     exc_bind (py_contains analysis k)
       (\<lambda>present. if \<not> present then py_setitem analysis k v else Inr analysis)"

text \<open>
  The body of the \<^verbatim>\<open>try\<close>, then the handler: \<^verbatim>\<open>except json.JSONDecodeError\<close>
  returns the fallback, every other exception leaves the function.
\<close>

definition parse_ai_response :: "libs \<Rightarrow> ustr \<Rightarrow> ustr \<Rightarrow> pyexc + pyval" where
  "parse_ai_response L response_text experiment_type =
     (let body =
        exc_bind (json_loads L (clean_response response_text)) (\<lambda>analysis.
        exc_bind (set_default (S ''safety_warnings'') (PList []) analysis) (\<lambda>analysis.
        exc_bind (set_default (S ''guidance'') (PList []) analysis) (\<lambda>analysis.
        set_default (S ''confidence_score'') (PFloat 0.8) analysis)))
      in case body of
           Inl JSONDecodeError \<Rightarrow> Inr (mock_analysis experiment_type)
         | Inl e \<Rightarrow> Inl e
         | Inr analysis \<Rightarrow> Inr analysis)"

subsection \<open>\<^verbatim>\<open>_analyze_with_ai\<close> and \<^verbatim>\<open>analyze_image\<close>\<close>

text \<open>
  The body of the \<^verbatim>\<open>try\<close>, then the handler: \<^verbatim>\<open>except Exception\<close> catches every
  exception of the model and returns the fallback. Code point 44 is the comma.
\<close>

definition analyze_with_ai :: "libs \<Rightarrow> analyzer \<Rightarrow> ustr \<Rightarrow> ustr \<Rightarrow> pyexc + pyval" where
  "analyze_with_ai L self image_data experiment_type =
     (let body =
        exc_bind (if str_startswith image_data (S ''data:image'')
                  then list_index (str_split 44 image_data) 1
                  else Inr image_data) (\<lambda>image_data.
        exc_bind (b64decode L image_data) (\<lambda>image_bytes.
        let prompt = build_analysis_prompt experiment_type in
        exc_bind (generate_content self prompt image_bytes) (\<lambda>analysis_text.
        parse_ai_response L analysis_text experiment_type)))
      in case body of
           Inl e \<Rightarrow> Inr (mock_analysis experiment_type)
         | Inr analysis \<Rightarrow> Inr analysis)"

definition analyze_image :: "libs \<Rightarrow> analyzer \<Rightarrow> ustr \<Rightarrow> ustr \<Rightarrow> pyexc + pyval" where
  "analyze_image L self image_data experiment_type =
     (if use_ai self then analyze_with_ai L self image_data experiment_type
      else Inr (mock_analysis experiment_type))"

section \<open>Properties of results\<close>

text \<open>What a caller reads from a returned result: \<^verbatim>\<open>result[k]\<close> and \<^verbatim>\<open>len(result[k])\<close>.\<close>

definition result_field :: "pyexc + pyval \<Rightarrow> ustr \<Rightarrow> pyexc + pyval" where
  "result_field r k = exc_bind r (\<lambda>v. py_getitem v k)"

definition result_len :: "pyexc + pyval \<Rightarrow> ustr \<Rightarrow> pyexc + nat" where
  "result_len r k = exc_bind (result_field r k) py_len"

text \<open>The confidence score is a float between 0 and 1.\<close>

definition confidence_in_range :: "pyval \<Rightarrow> bool" where
  "confidence_in_range v =
     (case py_getitem v (S ''confidence_score'') of
        Inr (PFloat c) \<Rightarrow> 0 \<le> c \<and> c \<le> 1
      | _ \<Rightarrow> False)"

text \<open>Every safety warning carries one of the four severities.\<close>

definition severity_levels :: "ustr list" where
  "severity_levels = [S ''low'', S ''medium'', S ''high'', S ''critical'']"

definition severities_valid :: "pyval \<Rightarrow> bool" where
  "severities_valid v =
     (case py_getitem v (S ''safety_warnings'') of
        Inr (PList ws) \<Rightarrow>
          list_all (\<lambda>w. case py_getitem w (S ''severity'') of
                          Inr (PStr s) \<Rightarrow> s \<in> set severity_levels
                        | _ \<Rightarrow> False) ws
      | _ \<Rightarrow> False)"

text \<open>The guidance steps carry the numbers 1, 2, ..., N in this order.\<close>

definition steps_numbered :: "pyval \<Rightarrow> bool" where
  "steps_numbered v =
     (case py_getitem v (S ''guidance'') of
        Inr (PList gs) \<Rightarrow>
          map (\<lambda>g. py_getitem g (S ''step'')) gs =
          map (\<lambda>i. Inr (PInt (int i))) [1 ..< Suc (length gs)]
      | _ \<Rightarrow> False)"

text \<open>
  A response wrapped in a markdown code fence: the opening marker with its language tag
  (empty for none), white space, the text, white space, the closing marker.
\<close>

definition fenced :: "ustr \<Rightarrow> ustr \<Rightarrow> ustr \<Rightarrow> ustr \<Rightarrow> ustr" where
  "fenced tag w1 t w2 = S ''```'' @ tag @ w1 @ t @ w2 @ S ''```''"

section \<open>Sample environment\<close>

text \<open>
  Concrete library behaviour for the closed instances below. The theorems themselves
  hold for every \<open>libs\<close>; an instance needs one. \<open>sample_json_loads\<close> is
  \<^verbatim>\<open>json.loads\<close> on the six listed texts (four decode, two raise
  \<^verbatim>\<open>JSONDecodeError\<close>), and \<open>sample_b64decode\<close> is \<^verbatim>\<open>base64.b64decode\<close> on the
  empty string; every text outside the samples is answered by \<open>OtherError\<close>, so that
  nothing is said about it.
\<close>

definition sample_object_text :: ustr where
  \<open>sample_object_text = S ''{"observations": "ok", "guidance": []}''\<close>

definition sample_list_text :: ustr where
  \<open>sample_list_text = S ''["safety_warnings", "guidance", "confidence_score"]''\<close>

definition sample_json_loads :: "ustr \<Rightarrow> pyexc + pyval" where
  "sample_json_loads t =
     (if t = S ''{}'' then Inr (PDict [])
      else if t = sample_object_text
        then Inr (PDict [(S ''observations'', PStr (S ''ok'')), (S ''guidance'', PList [])])
      else if t = S ''[1, 2]'' then Inr (PList [PInt 1, PInt 2])
      else if t = sample_list_text
        then Inr (PList [PStr (S ''safety_warnings''), PStr (S ''guidance''), PStr (S ''confidence_score'')])
      else if t = S ''not json'' then Inl JSONDecodeError
      else if t = S ''JSON'' @ [10] @ S ''{}'' then Inl JSONDecodeError
      else Inl (OtherError (S ''text outside the samples'')))"

definition sample_b64decode :: "ustr \<Rightarrow> pyexc + nat list" where
  "sample_b64decode t = (if t = [] then Inr [] else Inl (OtherError (S ''text outside the samples'')))"

definition sample_libs :: libs where
  "sample_libs = \<lparr>b64decode = sample_b64decode, json_loads = sample_json_loads\<rparr>"

text \<open>A model that answers every call with the same text, and one that fails every call.\<close>

definition const_model :: "ustr \<Rightarrow> gen_model" where
  "const_model text prompt image_bytes = Inr text"

definition failing_model :: gen_model where
  "failing_model prompt image_bytes = Inl (OtherError (S ''backend unavailable''))"

section \<open>Basic facts\<close>

lemma S_eq_iff [simp]: "S a = S b \<longleftrightarrow> a = b"
  by (simp add: S_def inj_on_def)

lemma mock_analysis_circuits [simp]: "mock_analysis (S ''circuits'') = mock_circuits"
  by (simp add: mock_analysis_def dict_get_def mock_data_def)

lemma mock_analysis_chemistry [simp]: "mock_analysis (S ''chemistry'') = mock_chemistry"
  by (simp add: mock_analysis_def dict_get_def mock_data_def)

lemma mock_analysis_physics [simp]: "mock_analysis (S ''physics'') = mock_physics"
  by (simp add: mock_analysis_def dict_get_def mock_data_def)

lemma mock_analysis_other:
  "x \<noteq> S ''circuits'' \<Longrightarrow> x \<noteq> S ''chemistry'' \<Longrightarrow> x \<noteq> S ''physics'' \<Longrightarrow>
   mock_analysis x = mock_circuits"
  by (simp add: mock_analysis_def dict_get_def mock_data_def)

lemma build_other:
  "x \<noteq> S ''circuits'' \<Longrightarrow> x \<noteq> S ''chemistry'' \<Longrightarrow> x \<noteq> S ''physics'' \<Longrightarrow> x \<noteq> S ''general'' \<Longrightarrow>
   build_analysis_prompt x = build_analysis_prompt (S ''general'')"
  by (simp add: build_analysis_prompt_def dict_get_def type_specific_def)

lemma analyze_image_no_key:
  "analyze_image L (ExperimentAnalyzer_init None gm) image_data ty = Inr (mock_analysis ty)"
  "analyze_image L (ExperimentAnalyzer_init (Some []) gm) image_data ty = Inr (mock_analysis ty)"
  by (simp_all add: analyze_image_def ExperimentAnalyzer_init_def)

lemma init_with_key:
  "key \<noteq> [] \<Longrightarrow> ExperimentAnalyzer_init (Some key) gm = \<lparr>use_ai = True, model = Some gm\<rparr>"
  by (simp add: ExperimentAnalyzer_init_def)

lemma circuits_fields:
  "result_field (Inr mock_circuits) (S ''confidence_score'') = Inr (PFloat 0.85)"
  "result_len (Inr mock_circuits) (S ''components'') = Inr 2"
  "result_len (Inr mock_circuits) (S ''safety_warnings'') = Inr 2"
  "result_len (Inr mock_circuits) (S ''guidance'') = Inr 7"
  by (simp_all add: result_field_def result_len_def exc_bind_def mock_circuits_def)

lemma chemistry_fields:
  "result_field (Inr mock_chemistry) (S ''confidence_score'') = Inr (PFloat 0.75)"
  "result_len (Inr mock_chemistry) (S ''guidance'') = Inr 5"
  by (simp_all add: result_field_def result_len_def exc_bind_def mock_chemistry_def)

lemma valid_circuits:
  "confidence_in_range mock_circuits" "severities_valid mock_circuits" "steps_numbered mock_circuits"
  by (simp_all add: confidence_in_range_def severities_valid_def steps_numbered_def
      mock_circuits_def severity_levels_def upt_rec)

lemma valid_chemistry:
  "confidence_in_range mock_chemistry" "severities_valid mock_chemistry" "steps_numbered mock_chemistry"
  by (simp_all add: confidence_in_range_def severities_valid_def steps_numbered_def
      mock_chemistry_def severity_levels_def upt_rec)

lemma valid_physics:
  "confidence_in_range mock_physics" "severities_valid mock_physics" "steps_numbered mock_physics"
  by (simp_all add: confidence_in_range_def severities_valid_def steps_numbered_def
      mock_physics_def severity_levels_def upt_rec)

text \<open>
  Whatever the libraries and the model do, \<^verbatim>\<open>analyze_image\<close> comes back with a value:
  the handler of \<^verbatim>\<open>_analyze_with_ai\<close> catches every exception of its body.
\<close>

lemma analyze_image_total: "\<exists>v. analyze_image L self image_data ty = Inr v"
  by (simp add: analyze_image_def analyze_with_ai_def Let_def split: sum.splits)

lemma analyze_with_ai_model_fails:
  assumes "model self = Some gm" "\<forall>p b. \<exists>e. gm p b = Inl e"
  shows "analyze_with_ai L self image_data ty = Inr (mock_analysis ty)"
proof -
  have g: "\<And>p b. \<exists>e. generate_content self p b = Inl e"
    using assms by (simp add: generate_content_def)
  show ?thesis
    unfolding analyze_with_ai_def Let_def exc_bind_def
    using g by (auto split: sum.splits) (metis sum.distinct(1))+
qed

section \<open>The fallback path\<close>

text \<open>
  C2. Without a credential (the environment variable unset, or set to the empty string)
  \<^verbatim>\<open>analyze_image\<close> for the type \<^verbatim>\<open>circuits\<close> returns, for every image data, a result
  with confidence score 0.85, two components, two safety warnings and seven guidance
  steps.
\<close>

theorem mock_mode_circuits:
  "result_field (analyze_image L (ExperimentAnalyzer_init None gm) image_data (S ''circuits''))
     (S ''confidence_score'') = Inr (PFloat 0.85)
   \<and> result_len (analyze_image L (ExperimentAnalyzer_init None gm) image_data (S ''circuits''))
     (S ''components'') = Inr 2
   \<and> result_len (analyze_image L (ExperimentAnalyzer_init None gm) image_data (S ''circuits''))
     (S ''safety_warnings'') = Inr 2
   \<and> result_len (analyze_image L (ExperimentAnalyzer_init None gm) image_data (S ''circuits''))
     (S ''guidance'') = Inr 7
   \<and> analyze_image L (ExperimentAnalyzer_init (Some []) gm) image_data (S ''circuits'')
     = analyze_image L (ExperimentAnalyzer_init None gm) image_data (S ''circuits'')"
  by (simp add: analyze_image_no_key circuits_fields)

text \<open>
  C10. Without a credential the result of \<^verbatim>\<open>analyze_image\<close> does not depend on the
  image data: two calls with the same experiment type return equal results.
\<close>

theorem mock_mode_ignores_image:
  "analyze_image L (ExperimentAnalyzer_init None gm) image_data1 ty
     = analyze_image L (ExperimentAnalyzer_init None gm) image_data2 ty
   \<and> analyze_image L (ExperimentAnalyzer_init (Some []) gm) image_data1 ty
     = analyze_image L (ExperimentAnalyzer_init (Some []) gm) image_data2 ty"
  by (simp add: analyze_image_no_key)

text \<open>
  C8. With a credential and a model that fails on every call, \<^verbatim>\<open>analyze_image\<close> for the
  type \<^verbatim>\<open>chemistry\<close> returns a result with confidence score 0.75 and five guidance
  steps.
\<close>

theorem failing_model_chemistry:
  assumes "key \<noteq> []" and "\<forall>p b. \<exists>e. gm p b = Inl e"
  shows "result_field (analyze_image L (ExperimentAnalyzer_init (Some key) gm) image_data (S ''chemistry''))
           (S ''confidence_score'') = Inr (PFloat 0.75)
       \<and> result_len (analyze_image L (ExperimentAnalyzer_init (Some key) gm) image_data (S ''chemistry''))
           (S ''guidance'') = Inr 5"
proof -
  have "analyze_image L (ExperimentAnalyzer_init (Some key) gm) image_data (S ''chemistry'')
          = Inr mock_chemistry"
    using assms by (simp add: analyze_image_def init_with_key analyze_with_ai_model_fails)
  then show ?thesis by (simp add: chemistry_fields)
qed

theorem failing_model_chemistry_witness:
  "S ''key'' \<noteq> [] \<and> (\<forall>p b. \<exists>e. failing_model p b = Inl e)
   \<and> result_field (analyze_image sample_libs (ExperimentAnalyzer_init (Some (S ''key'')) failing_model) []
         (S ''chemistry'')) (S ''confidence_score'') = Inr (PFloat 0.75)
   \<and> result_len (analyze_image sample_libs (ExperimentAnalyzer_init (Some (S ''key'')) failing_model) []
         (S ''chemistry'')) (S ''guidance'') = Inr 5"
proof -
  have a: "S ''key'' \<noteq> []" by (simp add: S_def)
  have b: "\<forall>p b. \<exists>e. failing_model p b = Inl e" by (simp add: failing_model_def)
  show ?thesis using a b failing_model_chemistry[OF a b, of sample_libs "[]"] by simp
qed

text \<open>
  C7. For each of the types \<^verbatim>\<open>circuits\<close>, \<^verbatim>\<open>chemistry\<close> and \<^verbatim>\<open>physics\<close> the fallback
  result has a confidence score between 0 and 1, only severities among low, medium, high
  and critical, and guidance steps numbered 1 to N without a gap.
\<close>

theorem fallback_results_valid:
  assumes "ty \<in> {S ''circuits'', S ''chemistry'', S ''physics''}"
  shows "confidence_in_range (mock_analysis ty) \<and> severities_valid (mock_analysis ty)
       \<and> steps_numbered (mock_analysis ty)"
  using assms valid_circuits valid_chemistry valid_physics by auto

theorem fallback_results_valid_witness:
  "S ''physics'' \<in> {S ''circuits'', S ''chemistry'', S ''physics''}
   \<and> confidence_in_range (mock_analysis (S ''physics'')) \<and> severities_valid (mock_analysis (S ''physics''))
   \<and> steps_numbered (mock_analysis (S ''physics''))"
  using fallback_results_valid[of "S ''physics''"] by simp

text \<open>
  C6. For every experiment type that is not a key of the prompt table, the prompt is the
  one built for \<^verbatim>\<open>general\<close>; for every experiment type other than \<^verbatim>\<open>circuits\<close>,
  \<^verbatim>\<open>chemistry\<close> and \<^verbatim>\<open>physics\<close> the fallback result is the one of \<^verbatim>\<open>circuits\<close>, so too
  for \<^verbatim>\<open>general\<close> and \<^verbatim>\<open>unknown-domain\<close>.
\<close>

theorem unrecognized_type_defaults:
  "(x \<notin> {S ''circuits'', S ''chemistry'', S ''physics'', S ''general''} \<longrightarrow>
      build_analysis_prompt x = build_analysis_prompt (S ''general''))
   \<and> (y \<notin> {S ''circuits'', S ''chemistry'', S ''physics''} \<longrightarrow>
      mock_analysis y = mock_analysis (S ''circuits''))
   \<and> mock_analysis (S ''general'') = mock_analysis (S ''circuits'')
   \<and> mock_analysis (S ''unknown-domain'') = mock_analysis (S ''circuits'')"
  by (simp add: build_other mock_analysis_other)

theorem unrecognized_type_defaults_witness:
  "S ''unknown-domain'' \<notin> {S ''circuits'', S ''chemistry'', S ''physics'', S ''general''}
   \<and> build_analysis_prompt (S ''unknown-domain'') = build_analysis_prompt (S ''general'')
   \<and> mock_analysis (S ''unknown-domain'') = mock_analysis (S ''circuits'')"
  using unrecognized_type_defaults[of "S ''unknown-domain''" "S ''unknown-domain''"] by simp

section \<open>Stripping white space\<close>

lemma dropWhile_all: "list_all P xs \<Longrightarrow> dropWhile P xs = []"
  by (induction xs) auto

lemma dropWhile_keep: "xs \<noteq> [] \<Longrightarrow> \<not> P (hd xs) \<Longrightarrow> dropWhile P xs = xs"
  by (cases xs) auto

lemma dropWhile_ws_prefix:
  "list_all isspace w \<Longrightarrow> dropWhile isspace (w @ x) = dropWhile isspace x"
  by (rule dropWhile_append2) (simp add: list_all_iff)

lemma rstrip_append_ws:
  assumes "list_all isspace w"
  shows "rev (dropWhile isspace (rev (x @ w))) = rev (dropWhile isspace (rev x))"
proof -
  have "list_all isspace (rev w)" using assms by (simp add: list_all_iff)
  then show ?thesis by (simp add: dropWhile_ws_prefix)
qed

lemma str_strip_Nil: "str_strip [] = []"
  by (simp add: str_strip_def)

lemma str_strip_ws_around:
  assumes "list_all isspace w1" "list_all isspace w2"
  shows "str_strip (w1 @ x @ w2) = str_strip x"
proof -
  have a: "dropWhile isspace (w1 @ x @ w2) = dropWhile isspace (x @ w2)"
    using assms(1) by (rule dropWhile_ws_prefix)
  show ?thesis
  proof (cases "list_all isspace x")
    case True
    then have "list_all isspace (x @ w2)" using assms(2) by simp
    then have h1: "dropWhile isspace (x @ w2) = []" by (rule dropWhile_all)
    have h2: "dropWhile isspace x = []" using True by (rule dropWhile_all)
    show ?thesis unfolding str_strip_def a h1 h2 by simp
  next
    case False
    then obtain c where "c \<in> set x" "\<not> isspace c" by (auto simp: list_all_iff)
    then have h: "dropWhile isspace (x @ w2) = dropWhile isspace x @ w2"
      by (simp add: dropWhile_append1)
    show ?thesis unfolding str_strip_def a h by (rule rstrip_append_ws[OF assms(2)])
  qed
qed

lemma str_strip_id:
  assumes "s \<noteq> []" "\<not> isspace (hd s)" "\<not> isspace (last s)"
  shows "str_strip s = s"
proof -
  have a: "dropWhile isspace s = s" using assms(1,2) by (rule dropWhile_keep)
  have "rev s \<noteq> []" "\<not> isspace (hd (rev s))" using assms by (simp_all add: hd_rev)
  then have b: "dropWhile isspace (rev s) = rev s" by (rule dropWhile_keep)
  show ?thesis unfolding str_strip_def a b by simp
qed

lemma str_strip_shape:
  assumes "str_strip s \<noteq> []"
  shows "\<not> isspace (hd (str_strip s))" "\<not> isspace (last (str_strip s))"
proof -
  let ?d = "dropWhile isspace s"
  let ?r = "dropWhile isspace (rev ?d)"
  have r: "?r \<noteq> []" using assms by (simp add: str_strip_def)
  have d: "?d \<noteq> []"
  proof
    assume e: "?d = []"
    have "?r = []" unfolding e by simp
    with r show False by simp
  qed
  have "\<not> isspace (hd ?r)" using r by (rule hd_dropWhile)
  then show "\<not> isspace (last (str_strip s))" using r by (simp add: str_strip_def last_rev)
  have hd_d: "\<not> isspace (hd ?d)" using d by (rule hd_dropWhile)
  have "rev ?d = takeWhile isspace (rev ?d) @ ?r" by simp
  then have "last (rev ?d) = last ?r" using r by (metis last_appendR)
  then have "hd ?d = last ?r" using d by (simp add: last_rev)
  then have "hd (str_strip s) = hd ?d" using r by (simp add: str_strip_def hd_rev)
  then show "\<not> isspace (hd (str_strip s))" using hd_d by simp
qed

lemma str_strip_idem: "str_strip (str_strip s) = str_strip s"
proof (cases "str_strip s = []")
  case True then show ?thesis by (simp add: str_strip_Nil)
next
  case False
  then show ?thesis by (intro str_strip_id str_strip_shape)
qed

lemma strip_first_char:
  assumes "str_strip t = c # m"
  shows "\<exists>b rest. t = b # rest \<and> (isspace b \<or> b = c)"
proof (cases t)
  case Nil then show ?thesis using assms by (simp add: str_strip_def)
next
  case (Cons b rest)
  show ?thesis
  proof (cases "isspace b")
    case True then show ?thesis using Cons by simp
  next
    case False
    then have d: "dropWhile isspace t = t" using Cons by simp
    have "rev t = takeWhile isspace (rev t) @ dropWhile isspace (rev t)" by simp
    then have "t = rev (dropWhile isspace (rev t)) @ rev (takeWhile isspace (rev t))"
      by (metis rev_append rev_rev_ident)
    then have "t = (c # m) @ rev (takeWhile isspace (rev t))"
      using assms d by (simp add: str_strip_def)
    then show ?thesis using Cons by simp
  qed
qed

section \<open>The text handed to the decoder\<close>

lemma S_fence: "S ''```'' = [96, 96, 96]" "S ''```json'' = [96, 96, 96, 106, 115, 111, 110]" "S ''json'' = [106, 115, 111, 110]"
  by (simp_all add: S_def)

lemma not_space [simp]: "\<not> isspace 96" "\<not> isspace 106" "\<not> isspace 123" "\<not> isspace 125"
  by (simp_all add: isspace_def)

lemma startswith_Cons:
  "str_startswith (b # rest) (c # p) \<longleftrightarrow> b = c \<and> str_startswith rest p"
  by (simp add: str_startswith_def)

lemma startswith_append_same: "str_startswith (p @ r) p"
  by (simp add: str_startswith_def)

lemma endswith_append_same: "str_endswith (r @ p) p"
  by (simp add: str_endswith_def)

lemma endswith_last: "str_endswith u p \<Longrightarrow> p \<noteq> [] \<Longrightarrow> last u = last p"
  unfolding str_endswith_def
  by (metis append_take_drop_id last_appendR)

lemma startswith_hd: "str_startswith u (c # p) \<Longrightarrow> \<exists>m. u = c # m"
  by (cases u) (simp_all add: str_startswith_def)

lemma clean_braced:
  assumes "str_startswith (str_strip t) [123]" "str_endswith (str_strip t) [125]"
  shows "clean_response t = str_strip t"
proof -
  obtain m where u: "str_strip t = 123 # m" using assms(1) startswith_hd by blast
  have l: "last (str_strip t) = 125" using endswith_last[OF assms(2)] by simp
  have a: "\<not> str_startswith (str_strip t) (S ''```json'')" "\<not> str_startswith (str_strip t) (S ''```'')"
    by (simp_all add: u startswith_Cons S_fence)
  have b: "\<not> str_endswith (str_strip t) (S ''```'')"
    using endswith_last[of "str_strip t" "S ''```''"] l by (auto simp: S_fence)
  show ?thesis by (simp add: clean_response_def Let_def a b str_strip_idem)
qed

lemma first_after_fence:
  assumes "list_all isspace w1" "str_strip t = 123 # m"
  shows "\<exists>b rest. w1 @ t @ r = b # rest \<and> (isspace b \<or> b = 123)"
proof (cases w1)
  case Nil
  then show ?thesis using strip_first_char[OF assms(2)] by auto
next
  case (Cons c w)
  then show ?thesis using assms(1) by simp
qed

lemma clean_fenced:
  assumes "str_startswith (str_strip t) [123]" "str_endswith (str_strip t) [125]"
    and "list_all isspace w0" "list_all isspace w1" "list_all isspace w2" "list_all isspace w3"
    and "tag = S ''json'' \<or> tag = []"
  shows "clean_response (w0 @ fenced tag w1 t w2 @ w3) = str_strip t"
proof -
  obtain m where u: "str_strip t = 123 # m" using assms(1) startswith_hd by blast
  let ?R = "w1 @ t @ w2 @ S ''```''"
  let ?F = "fenced tag w1 t w2"
  obtain b rest where R: "?R = b # rest" "isspace b \<or> b = 123"
    using first_after_fence[OF assms(4) u] by blast
  have F: "?F = S ''```'' @ tag @ ?R" by (simp add: fenced_def)
  have "?F \<noteq> []" "hd ?F = 96" "last ?F = 96" by (simp_all add: fenced_def S_fence)
  then have "str_strip ?F = ?F" by (intro str_strip_id) simp_all
  then have t1: "str_strip (w0 @ ?F @ w3) = ?F"
    using str_strip_ws_around[OF assms(3) assms(6)] by simp
  have nb: "b \<noteq> 96" "b \<noteq> 106" using R(2) by auto
  have t3: "(let t2 = (if str_startswith ?F (S ''```json'') then drop 7 ?F else ?F)
             in if str_startswith t2 (S ''```'') then drop 3 t2 else t2) = ?R"
  proof (cases "tag = []")
    case True
    have F': "?F = 96 # 96 # 96 # b # rest"
      using R(1) by (simp add: fenced_def True S_fence)
    have "\<not> str_startswith ?F (S ''```json'')"
      using nb by (simp add: F' startswith_Cons S_fence)
    moreover have "str_startswith ?F (S ''```'')"
      by (simp add: F' str_startswith_def S_fence)
    moreover have "drop 3 ?F = ?R" unfolding F' R(1) by simp
    ultimately show ?thesis by (simp add: Let_def)
  next
    case False
    then have tag: "tag = S ''json''" using assms(7) by simp
    have F': "?F = 96 # 96 # 96 # 106 # 115 # 111 # 110 # b # rest"
      using R(1) by (simp add: fenced_def tag S_fence)
    have "str_startswith ?F (S ''```json'')"
      by (simp add: F' str_startswith_def S_fence)
    moreover have "drop 7 ?F = ?R" unfolding F' R(1) by simp
    moreover have "\<not> str_startswith ?R (S ''```'')"
      using nb unfolding R(1) by (simp add: startswith_Cons S_fence)
    ultimately show ?thesis by (simp add: Let_def)
  qed
  have e: "str_endswith ?R (S ''```'')"
    using endswith_append_same[of "w1 @ t @ w2" "S ''```''"] by simp
  have t4: "take (length ?R - 3) ?R = w1 @ t @ w2" by (simp add: S_fence)
  have "clean_response (w0 @ ?F @ w3) = str_strip (w1 @ t @ w2)"
    unfolding clean_response_def t1 using t3 e t4 by (simp add: Let_def)
  then show ?thesis using str_strip_ws_around[OF assms(4) assms(5)] by simp
qed

lemma parse_cong:
  "clean_response a = clean_response b \<Longrightarrow> parse_ai_response L a ty = parse_ai_response L b ty"
  by (simp add: parse_ai_response_def)

lemma clean_plain:
  assumes "s \<noteq> []" "\<not> isspace (hd s)" "\<not> isspace (last s)" "hd s \<noteq> 96" "last s \<noteq> 96"
  shows "clean_response s = s"
proof -
  have i: "str_strip s = s" using assms(1-3) by (rule str_strip_id)
  obtain c m where s: "s = c # m" using assms(1) by (cases s) auto
  have a: "\<not> str_startswith s (S ''```json'')" "\<not> str_startswith s (S ''```'')"
    using assms(4) by (simp_all add: s startswith_Cons S_fence)
  have b: "\<not> str_endswith s (S ''```'')"
    using endswith_last[of s "S ''```''"] assms(5) by (auto simp: S_fence)
  show ?thesis by (simp add: clean_response_def Let_def i a b)
qed

lemma map_of_dict_set: "map_of (dict_set d k v) = (map_of d)(k \<mapsto> v)"
  by (induction d k v rule: dict_set.induct) auto

lemma set_default_dict:
  "set_default k v (PDict d) = Inr (PDict (if map_of d k = None then dict_set d k v else d))"
  by (simp add: set_default_def exc_bind_def)

lemma parse_undecodable:
  assumes "json_loads L (clean_response t) = Inl JSONDecodeError"
  shows "parse_ai_response L t ty = Inr (mock_analysis ty)"
  using assms by (simp add: parse_ai_response_def exc_bind_def)

subsection \<open>The sample environment, evaluated\<close>

lemma sample_loads [simp]: "json_loads sample_libs = sample_json_loads" "b64decode sample_libs = sample_b64decode"
  by (simp_all add: sample_libs_def)

lemma clean_samples:
  "clean_response (S ''[1, 2]'') = S ''[1, 2]''"
  "clean_response (S ''not json'') = S ''not json''"
  "clean_response (S ''{}'') = S ''{}''"
  "clean_response sample_object_text = sample_object_text"
  "clean_response sample_list_text = sample_list_text"
  by (rule clean_plain; simp add: S_def isspace_def sample_object_text_def sample_list_text_def)+

lemma strip_sample_object: "str_strip sample_object_text = sample_object_text"
  by (rule str_strip_id; simp add: S_def isspace_def sample_object_text_def)

lemma decode_samples:
  "sample_json_loads (S ''[1, 2]'') = Inr (PList [PInt 1, PInt 2])"
  "sample_json_loads (S ''not json'') = Inl JSONDecodeError"
  "sample_json_loads (S ''{}'') = Inr (PDict [])"
  "sample_json_loads sample_object_text = Inr (PDict [(S ''observations'', PStr (S ''ok'')), (S ''guidance'', PList [])])"
  "sample_json_loads sample_list_text = Inr (PList [PStr (S ''safety_warnings''), PStr (S ''guidance''), PStr (S ''confidence_score'')])"
  by (simp_all add: sample_json_loads_def sample_object_text_def sample_list_text_def)

lemma decode_bad_tag: "sample_json_loads (S ''JSON'' @ 10 # S ''{}'') = Inl JSONDecodeError"
  by (simp add: sample_json_loads_def sample_object_text_def sample_list_text_def S_def)

lemma clean_fenced_JSON:
  "clean_response (fenced (S ''JSON'') [10] (S ''{}'') [10]) = S ''JSON'' @ 10 # S ''{}''"
  by (simp add: clean_response_def fenced_def str_strip_def str_startswith_def str_endswith_def
      S_def isspace_def Let_def)

section \<open>The parser\<close>

text \<open>
  C3. When the decoding step of \<^verbatim>\<open>_parse_ai_response\<close> yields a JSON object, the
  parser returns a dictionary that agrees with the object on every key the object has,
  holds an empty list under \<^verbatim>\<open>safety_warnings\<close> and under \<^verbatim>\<open>guidance\<close> and 0.8
  under \<^verbatim>\<open>confidence_score\<close> where the object lacks the key, and has no other key.
\<close>

theorem parse_fills_missing_keys:
  assumes "json_loads L (clean_response t) = Inr (PDict d)"
  shows "\<exists>d'. parse_ai_response L t ty = Inr (PDict d') \<and>
     (\<forall>k. map_of d' k =
        (if map_of d k \<noteq> None then map_of d k
         else if k = S ''safety_warnings'' then Some (PList [])
         else if k = S ''guidance'' then Some (PList [])
         else if k = S ''confidence_score'' then Some (PFloat 0.8)
         else None))"
  using assms
  by (auto simp add: parse_ai_response_def exc_bind_def set_default_dict map_of_dict_set Let_def)

theorem parse_fills_missing_keys_witness:
  "json_loads sample_libs (clean_response sample_object_text)
     = Inr (PDict [(S ''observations'', PStr (S ''ok'')), (S ''guidance'', PList [])])
   \<and> (\<exists>d'. parse_ai_response sample_libs sample_object_text (S ''physics'') = Inr (PDict d')
        \<and> map_of d' (S ''observations'') = Some (PStr (S ''ok''))
        \<and> map_of d' (S ''guidance'') = Some (PList [])
        \<and> map_of d' (S ''safety_warnings'') = Some (PList [])
        \<and> map_of d' (S ''confidence_score'') = Some (PFloat 0.8)
        \<and> map_of d' (S ''components'') = None)"
proof -
  have a: "json_loads sample_libs (clean_response sample_object_text)
     = Inr (PDict [(S ''observations'', PStr (S ''ok'')), (S ''guidance'', PList [])])"
    by (simp add: clean_samples decode_samples)
  obtain d' where d: "parse_ai_response sample_libs sample_object_text (S ''physics'') = Inr (PDict d')"
    and m: "\<And>k. map_of d' k =
        (if map_of [(S ''observations'', PStr (S ''ok'')), (S ''guidance'', PList [])] k \<noteq> None
         then map_of [(S ''observations'', PStr (S ''ok'')), (S ''guidance'', PList [])] k
         else if k = S ''safety_warnings'' then Some (PList [])
         else if k = S ''guidance'' then Some (PList [])
         else if k = S ''confidence_score'' then Some (PFloat 0.8)
         else None)"
    using parse_fills_missing_keys[OF a, of "S ''physics''"] by blast
  show ?thesis using a d by (simp add: m)
qed

text \<open>
  C9. A text that decodes to a JSON array without the string \<^verbatim>\<open>safety_warnings\<close> among
  its elements, such as \<^verbatim>\<open>[1, 2]\<close>, makes \<^verbatim>\<open>_parse_ai_response\<close> raise
  \<^verbatim>\<open>TypeError\<close> in the key-defaulting step: the membership test is true of a list, the
  assignment under a string key is not allowed, and the handler for
  \<^verbatim>\<open>JSONDecodeError\<close> does not catch it. The parser neither returns a result nor the
  fallback.
\<close>

theorem parse_list_raises:
  assumes "json_loads L (clean_response t) = Inr (PList xs)"
    and "PStr (S ''safety_warnings'') \<notin> set xs"
  shows "parse_ai_response L t ty = Inl TypeError"
  using assms by (simp add: parse_ai_response_def exc_bind_def set_default_def)

theorem parse_list_raises_witness:
  "json_loads sample_libs (clean_response (S ''[1, 2]'')) = Inr (PList [PInt 1, PInt 2])
   \<and> PStr (S ''safety_warnings'') \<notin> set [PInt 1, PInt 2]
   \<and> parse_ai_response sample_libs (S ''[1, 2]'') (S ''physics'') = Inl TypeError"
proof -
  have a: "json_loads sample_libs (clean_response (S ''[1, 2]'')) = Inr (PList [PInt 1, PInt 2])"
    by (simp add: clean_samples decode_samples)
  have b: "PStr (S ''safety_warnings'') \<notin> set [PInt 1, PInt 2]" by simp
  show ?thesis using a b parse_list_raises[OF a b] by simp
qed

text \<open>
  C5, as amended. Let the first character of a text that is not white space be an opening
  brace and the last one a closing brace, as it is for every text that decodes to a JSON
  object. Wrapped in a code fence whose language tag is \<^verbatim>\<open>json\<close> or missing, with any
  white space around the fence and between the markers and the text, it gives the same
  result of \<^verbatim>\<open>_parse_ai_response\<close> as the text alone.
\<close>

theorem fence_json_or_none:
  assumes "str_startswith (str_strip t) [123]" "str_endswith (str_strip t) [125]"
    and "list_all isspace w0" "list_all isspace w1" "list_all isspace w2" "list_all isspace w3"
    and "tag = S ''json'' \<or> tag = []"
  shows "parse_ai_response L (w0 @ fenced tag w1 t w2 @ w3) ty = parse_ai_response L t ty"
  using assms by (intro parse_cong) (simp add: clean_fenced clean_braced)

theorem fence_json_or_none_witness:
  "str_startswith (str_strip sample_object_text) [123] \<and> str_endswith (str_strip sample_object_text) [125]
   \<and> list_all isspace [] \<and> list_all isspace [10] \<and> (S ''json'' = S ''json'' \<or> S ''json'' = [])
   \<and> parse_ai_response sample_libs (fenced (S ''json'') [10] sample_object_text [10]) (S ''physics'')
       = parse_ai_response sample_libs sample_object_text (S ''physics'')"
proof -
  have a: "str_startswith (str_strip sample_object_text) [123]" "str_endswith (str_strip sample_object_text) [125]"
    unfolding strip_sample_object
    by (simp_all add: str_startswith_def str_endswith_def sample_object_text_def S_def)
  have w: "list_all isspace []" "list_all isspace [10]" by (simp_all add: isspace_def)
  have t: "S ''json'' = S ''json'' \<or> S ''json'' = []" by simp
  show ?thesis
    using a w t fence_json_or_none[OF a w(1) w(2) w(2) w(1) t, of sample_libs "S ''physics''"] by simp
qed

text \<open>
  The claim C5 as stated covers every language tag. The parser knows the tag
  \<^verbatim>\<open>json\<close> alone: under the tag \<^verbatim>\<open>JSON\<close> the tag stays in the text, the decoding
  fails and the fallback comes back, whereas the bare text \<^verbatim>\<open>{}\<close> gives the three
  defaults.
\<close>

theorem fence_other_tag_counterexample:
  "parse_ai_response sample_libs (fenced (S ''JSON'') [10] (S ''{}'') [10]) (S ''circuits'')
     \<noteq> parse_ai_response sample_libs (S ''{}'') (S ''circuits'')"
  by (simp add: parse_ai_response_def clean_fenced_JSON clean_samples decode_samples decode_bad_tag exc_bind_def
      set_default_dict mock_circuits_def)

text \<open>
  C4, as amended. When the cleaned text cannot be decoded, \<^verbatim>\<open>_parse_ai_response\<close>
  does not fail: it catches the \<^verbatim>\<open>JSONDecodeError\<close> itself and returns the fallback
  result of the experiment type. With a credential and a model that answers every call
  with such a text, \<^verbatim>\<open>analyze_image\<close> for the type \<^verbatim>\<open>physics\<close> returns exactly the
  fallback result of \<^verbatim>\<open>physics\<close>.
\<close>

theorem undecodable_text_falls_back:
  assumes "json_loads L (clean_response t) = Inl JSONDecodeError"
    and "key \<noteq> []" and "\<forall>p b. gm p b = Inr t"
  shows "parse_ai_response L t ty = Inr (mock_analysis ty)
       \<and> analyze_image L (ExperimentAnalyzer_init (Some key) gm) image_data (S ''physics'')
           = Inr (mock_analysis (S ''physics''))"
proof -
  have p: "\<And>ty. parse_ai_response L t ty = Inr (mock_analysis ty)"
    using assms(1) by (rule parse_undecodable)
  have "analyze_with_ai L \<lparr>use_ai = True, model = Some gm\<rparr> image_data (S ''physics'')
          = Inr (mock_analysis (S ''physics''))"
    using assms(3) p
    by (simp add: analyze_with_ai_def exc_bind_def generate_content_def Let_def split: sum.splits)
  then show ?thesis using p assms(2) by (simp add: analyze_image_def init_with_key)
qed

theorem undecodable_text_falls_back_witness:
  "json_loads sample_libs (clean_response (S ''not json'')) = Inl JSONDecodeError
   \<and> S ''key'' \<noteq> [] \<and> (\<forall>p b. const_model (S ''not json'') p b = Inr (S ''not json''))
   \<and> parse_ai_response sample_libs (S ''not json'') (S ''physics'') = Inr (mock_analysis (S ''physics''))
   \<and> analyze_image sample_libs (ExperimentAnalyzer_init (Some (S ''key'')) (const_model (S ''not json''))) []
        (S ''physics'') = Inr (mock_analysis (S ''physics''))"
proof -
  have a: "json_loads sample_libs (clean_response (S ''not json'')) = Inl JSONDecodeError"
    by (simp add: clean_samples decode_samples)
  have b: "S ''key'' \<noteq> []" by (simp add: S_def)
  have c: "\<forall>p b. const_model (S ''not json'') p b = Inr (S ''not json'')" by (simp add: const_model_def)
  show ?thesis using a b c undecodable_text_falls_back[OF a b c, of "S ''physics''" "[]"] by blast
qed

text \<open>
  The claim C4 as stated lets the parser fail on such a text. On \<^verbatim>\<open>not json\<close> the
  decoding raises and the parser returns a value all the same.
\<close>

theorem parse_error_counterexample:
  "json_loads sample_libs (clean_response (S ''not json'')) = Inl JSONDecodeError
   \<and> \<not> isl (parse_ai_response sample_libs (S ''not json'') (S ''physics''))"
  by (simp add: clean_samples decode_samples parse_ai_response_def exc_bind_def)

section \<open>The analyzer as a whole\<close>

text \<open>
  A result of \<^verbatim>\<open>_analyze_with_ai\<close> is the fallback or a value the parser returned for
  some response text.
\<close>

lemma analyze_with_ai_cases:
  "analyze_with_ai L self image_data ty = Inr (mock_analysis ty)
   \<or> (\<exists>t v. parse_ai_response L t ty = Inr v \<and> analyze_with_ai L self image_data ty = Inr v)"
  by (auto simp add: analyze_with_ai_def exc_bind_def Let_def split: sum.splits)

text \<open>
  C1. With a credential and a model whose response is the JSON array
  \<^verbatim>\<open>["safety_warnings", "guidance", "confidence_score"]\<close>, every membership test of the
  key-defaulting step holds, nothing is assigned and nothing is raised, and
  \<^verbatim>\<open>analyze_image\<close> returns the decoded list: not a dictionary, and not the fallback.
\<close>

theorem analyze_image_returns_list:
  "analyze_image sample_libs (ExperimentAnalyzer_init (Some (S ''key'')) (const_model sample_list_text)) []
     (S ''circuits'')
   = Inr (PList [PStr (S ''safety_warnings''), PStr (S ''guidance''), PStr (S ''confidence_score'')])"
proof -
  have k: "S ''key'' \<noteq> []" by (simp add: S_def)
  have d: "\<not> str_startswith [] (S ''data:image'')" by (simp add: str_startswith_def S_def)
  have p: "parse_ai_response sample_libs sample_list_text (S ''circuits'')
     = Inr (PList [PStr (S ''safety_warnings''), PStr (S ''guidance''), PStr (S ''confidence_score'')])"
    by (simp add: parse_ai_response_def clean_samples decode_samples exc_bind_def set_default_def)
  show ?thesis
    by (simp add: analyze_image_def init_with_key[OF k] analyze_with_ai_def d exc_bind_def
        sample_b64decode_def generate_content_def const_model_def p)
qed

end
